theory Spec2Isabelle
  imports Main "HOL-Library.Sublist"
begin

section \<open>Python strings\<close>

text \<open>
  A Python \<open>str\<close> is modelled as a \<open>string\<close>; one \<open>char\<close> stands for one element of the
  Python string with a code point below 256, and \<open>length\<close> is Python's \<open>len\<close>.
  \<open>py_isspace\<close> lists the code points below 256 that \<open>str.isspace\<close> accepts, which are the
  ones \<open>str.strip()\<close> removes from both ends.
\<close>

definition py_isspace :: "char \<Rightarrow> bool" where
  "py_isspace c = (of_char c \<in> set [9, 10, 11, 12, 13, 28, 29, 30, 31, 32, 133, 160 :: nat])"

definition strip :: "string \<Rightarrow> string" where
  "strip s = rev (dropWhile py_isspace (rev (dropWhile py_isspace s)))"

text \<open>\<open>sub in s\<close> on Python strings.\<close>

fun str_contains :: "string \<Rightarrow> string \<Rightarrow> bool" where
  "str_contains sub [] = (sub = [])"
| "str_contains sub (c # cs) = (prefix sub (c # cs) \<or> str_contains sub cs)"

section \<open>Text extraction of \<open>get_doc_content\<close>\<close>

text \<open>
  The document tree returned by the service. A paragraph element is the \<open>content\<close> of its
  \<open>textRun\<close> when it has one (\<open>None\<close> for an element without a text run or a run without
  content). A structural element holds a \<open>paragraph\<close> (the list \<open>elements\<close>), a \<open>table\<close>
  (\<open>tableRows\<close>, each a list \<open>tableCells\<close>, each cell a list \<open>content\<close> of structural
  elements), or neither (a section break and the like); a missing list is the empty list,
  as the \<open>.get(key, [])\<close> of the source makes it. The type is a codatatype: a tree may nest
  tables in cells without any bound, even forever.
\<close>

type_synonym paragraph_element = "string option"

codatatype element =
    Paragraph "paragraph_element list"
  | Table "element list list list"
  | SectionBreak

definition TAB_HEADER_FORMAT :: "string \<Rightarrow> string" where
  "TAB_HEADER_FORMAT tab_name = CHR 0x0A # ''--- TAB: '' @ tab_name @ '' ---'' @ [CHR 0x0A]"

text \<open>
  \<open>text_lines\<close> is only ever joined with the empty separator, so appending a line is
  appending its characters. The recursion into a cell passes \<open>depth + 1\<close>; it is justified
  by the depth counter alone, not by the shape of the tree.
\<close>

function (domintros) extract_text_from_elements ::
  "element list \<Rightarrow> string option \<Rightarrow> int \<Rightarrow> string" where
  "extract_text_from_elements elements tab_name depth =
     (if depth > 5 then []
      else
        (case tab_name of
           None \<Rightarrow> []
         | Some n \<Rightarrow> if n \<noteq> [] then TAB_HEADER_FORMAT n else []) @
        concat (map (\<lambda>element.
          case element of
            Paragraph para_elements \<Rightarrow>
              (let current_line_text =
                     concat (map (\<lambda>pe. case pe of None \<Rightarrow> [] | Some c \<Rightarrow> c) para_elements)
               in if strip current_line_text \<noteq> [] then current_line_text else [])
          | Table table_rows \<Rightarrow>
              concat (map (\<lambda>row_cells.
                concat (map (\<lambda>cell_content.
                  (let cell_text = extract_text_from_elements cell_content None (depth + 1)
                   in if strip cell_text \<noteq> [] then cell_text else [])) row_cells)) table_rows)
          | SectionBreak \<Rightarrow> []) elements))"
  by pat_completeness auto
termination
  by (relation "measure (\<lambda>(elements, tab_name, depth). nat (6 - depth))") auto

declare extract_text_from_elements.simps [simp del]

text \<open>
  A tab: its \<open>documentTab\<close> when present (the \<open>title\<close> when present, and the \<open>content\<close> of
  its \<open>body\<close>), and its \<open>childTabs\<close>.
\<close>

datatype document_tab = DocumentTab "string option" "element list"

datatype tab = Tab "document_tab option" "tab list"

fun process_tab_hierarchy :: "tab \<Rightarrow> int \<Rightarrow> string" where
  "process_tab_hierarchy (Tab document_tab child_tabs) level =
     (case document_tab of
        None \<Rightarrow> []
      | Some (DocumentTab title tab_body) \<Rightarrow>
          (let tab_title = (case title of None \<Rightarrow> ''Untitled Tab'' | Some t \<Rightarrow> t);
               tab_title = (if level > 0
                            then concat (replicate (nat level) ''    '') @ tab_title
                            else tab_title)
           in extract_text_from_elements tab_body (Some tab_title) 0)) @
     concat (map (\<lambda>child_tab. process_tab_hierarchy child_tab (level + 1)) child_tabs)"

text \<open>
  The native-document branch of \<open>get_doc_content\<close>: \<open>doc_data\<close> is the \<open>content\<close> of the
  \<open>body\<close> and the list \<open>tabs\<close>; the result is \<open>body_text\<close>.
\<close>

record doc_data =
  body :: "element list"
  tabs :: "tab list"

definition body_text :: "doc_data \<Rightarrow> string" where
  "body_text doc =
     (let main_content = extract_text_from_elements (body doc) None 0
      in if strip main_content \<noteq> [] then main_content else []) @
     concat (map (\<lambda>tab.
       (let tab_content = process_tab_hierarchy tab 0
        in if strip tab_content \<noteq> [] then tab_content else [])) (tabs doc))"

text \<open>The value returned for a native document: the metadata header, then \<open>body_text\<close>.\<close>

definition get_doc_content :: "string \<Rightarrow> string \<Rightarrow> string \<Rightarrow> string \<Rightarrow> doc_data \<Rightarrow> string" where
  "get_doc_content file_name document_id mime_type web_view_link doc =
     (''File: '' @ [CHR 0x22] @ file_name @ [CHR 0x22] @ '' (ID: '' @ document_id @
        '', Type: '' @ mime_type @ '')'' @ [CHR 0x0A] @
      ''Link: '' @ web_view_link @ [CHR 0x0A, CHR 0x0A] @ ''--- CONTENT ---'' @ [CHR 0x0A]) @
     body_text doc"

section \<open>Edit operations\<close>

text \<open>
  Modelled from the spec: \<open>gdocs/docs_helpers.py\<close>, which holds the request builders
  \<open>create_insert_text_request\<close>, \<open>create_delete_range_request\<close>,
  \<open>create_format_text_request\<close>, \<open>create_find_replace_request\<close>,
  \<open>create_insert_table_request\<close>, \<open>create_insert_image_request\<close>,
  \<open>create_insert_page_break_request\<close> and \<open>create_bullet_list_request\<close>, is not among the
  sources. The spec's data model gives the operations as a tagged variant
  (\<open>InsertText{index, text}\<close>, \<open>DeleteRange{start, end}\<close>, \<open>FormatText{start, end, style}\<close>,
  \<open>FindReplace{find, replace, matchCase}\<close>, \<open>InsertTable{index, rows, cols}\<close>,
  \<open>InsertImage{index, uri, width?, height?}\<close>, \<open>InsertPageBreak{index}\<close>,
  \<open>CreateBullets{start, end, presetId}\<close>) and the builders as pure constructors; each builder
  is taken to build the operation of its kind from its arguments, unchanged. The style of
  \<open>FormatText\<close> is the five arguments \<open>bold\<close>, \<open>italic\<close>, \<open>underline\<close>, \<open>font_size\<close>,
  \<open>font_family\<close> that the caller passes on.
\<close>

datatype edit_op =
    InsertText int string
  | DeleteRange int int
  | FormatText int int "bool option" "bool option" "bool option" "int option" "string option"
  | FindReplace string string bool
  | InsertTable int int int
  | InsertImage int string "int option" "int option"
  | InsertPageBreak int
  | CreateBullets int int string

definition create_insert_text_request :: "int \<Rightarrow> string \<Rightarrow> edit_op" where
  "create_insert_text_request index text = InsertText index text"

definition create_delete_range_request :: "int \<Rightarrow> int \<Rightarrow> edit_op" where
  "create_delete_range_request start_index end_index = DeleteRange start_index end_index"

definition create_format_text_request ::
  "int \<Rightarrow> int \<Rightarrow> bool option \<Rightarrow> bool option \<Rightarrow> bool option \<Rightarrow> int option \<Rightarrow> string option
     \<Rightarrow> edit_op" where
  "create_format_text_request start_index end_index bold italic underline font_size font_family =
     FormatText start_index end_index bold italic underline font_size font_family"

definition create_insert_table_request :: "int \<Rightarrow> int \<Rightarrow> int \<Rightarrow> edit_op" where
  "create_insert_table_request index rows columns = InsertTable index rows columns"

definition create_insert_page_break_request :: "int \<Rightarrow> edit_op" where
  "create_insert_page_break_request index = InsertPageBreak index"

definition create_insert_image_request :: "int \<Rightarrow> string \<Rightarrow> int option \<Rightarrow> int option \<Rightarrow> edit_op" where
  "create_insert_image_request index image_uri width height = InsertImage index image_uri width height"

definition create_bullet_list_request :: "int \<Rightarrow> int \<Rightarrow> string \<Rightarrow> edit_op" where
  "create_bullet_list_request start_index end_index list_type =
     CreateBullets start_index end_index list_type"

text \<open>
  \<open>ValidationManager\<close> (\<open>gdocs/managers\<close>) is not among the sources either; its methods are
  parameters. Each returns the pair \<open>(is_valid, error_msg)\<close>.
\<close>

record validation_manager =
  validate_document_id :: "string \<Rightarrow> bool \<times> string"
  validate_text_formatting_params ::
    "bool option \<Rightarrow> bool option \<Rightarrow> bool option \<Rightarrow> int option \<Rightarrow> string option \<Rightarrow> bool \<times> string"
  validate_index_range :: "int \<Rightarrow> int \<Rightarrow> bool \<times> string"
  validate_table_data :: "string list list \<Rightarrow> bool \<times> string"
  validate_index :: "int \<Rightarrow> string \<Rightarrow> bool \<times> string"

text \<open>
  What a tool call comes to: it returns an error string before any request is sent
  (\<open>Rejected\<close>), it raises (\<open>Raised\<close>, with the message of the exception that leaves the
  tool), it submits one batch of requests with \<open>batchUpdate\<close> (\<open>Built\<close>), or, for the table
  operation, it calls \<open>create_and_populate_table\<close> at the listed indices, in this order, and
  then reports success (the manager's message, the rows and columns of its metadata, and
  the index put in the report), reports the failure string, or raises.
\<close>

datatype tool_result =
    Rejected string
  | Raised string
  | Built "edit_op list"
  | TableDone "int list" string int int int
  | TableFailed "int list" string
  | TableRaised "int list" string

text \<open>Truthiness of an optional number and of an optional string.\<close>

definition truthy_int :: "int option \<Rightarrow> bool" where
  "truthy_int v = (case v of None \<Rightarrow> False | Some n \<Rightarrow> n \<noteq> 0)"

definition truthy_str :: "string option \<Rightarrow> bool" where
  "truthy_str v = (case v of None \<Rightarrow> False | Some s \<Rightarrow> s \<noteq> [])"

section \<open>\<open>insert_doc_elements\<close>\<close>

text \<open>
  \<open>TableOperationManager.create_and_populate_table\<close> (\<open>gdocs/managers\<close>) and the Drive
  service are not among the sources; both are parameters. An attempt of the manager, called
  with the document id, the table data, an index and \<open>bold_headers\<close>, returns the triple
  \<open>(success, message, metadata)\<close>, of which the tool reads \<open>rows\<close> and \<open>columns\<close> of the
  metadata, or raises an \<open>HttpError\<close> or another exception. A Drive lookup gives the
  \<open>name\<close> and \<open>mimeType\<close> of the file, or raises.
\<close>

datatype attempt =
    Attempt bool string "int option" "int option"
  | AttemptHttpError string
  | AttemptError string

datatype drive_file =
    DriveFile "string option" "string option"
  | DriveFailure string

text \<open>The branch \<open>operation == "text_elements"\<close>, at the index already adjusted.\<close>

definition insert_text_elements ::
  "int \<Rightarrow> string option \<Rightarrow> int option \<Rightarrow> int option \<Rightarrow> string option \<Rightarrow> string option
     \<Rightarrow> tool_result" where
  "insert_text_elements index element_type rows columns list_type text =
     (if \<not> truthy_str element_type
      then Raised (''Unexpected error: '' @ [CHR 0x27] @ ''element_type'' @ [CHR 0x27] @
                   '' is required for text_elements operation'')
      else
        (let et = (case element_type of None \<Rightarrow> [] | Some x \<Rightarrow> x)
         in if et = ''table'' then
              (case (rows, columns) of
                 (Some r, Some c) \<Rightarrow>
                   if r = 0 \<or> c = 0
                   then Rejected (''Error: '' @ [CHR 0x27] @ ''rows'' @ [CHR 0x27] @ '' and '' @
                          [CHR 0x27] @ ''columns'' @ [CHR 0x27] @
                          '' parameters are required for table insertion.'')
                   else Built [create_insert_table_request index r c]
               | _ \<Rightarrow>
                   Rejected (''Error: '' @ [CHR 0x27] @ ''rows'' @ [CHR 0x27] @ '' and '' @
                     [CHR 0x27] @ ''columns'' @ [CHR 0x27] @
                     '' parameters are required for table insertion.''))
            else if et = ''list'' then
              (case list_type of
                 None \<Rightarrow>
                   Rejected (''Error: '' @ [CHR 0x27] @ ''list_type'' @ [CHR 0x27] @
                     '' parameter is required for list insertion ('' @ [CHR 0x27] @ ''UNORDERED'' @
                     [CHR 0x27] @ '' or '' @ [CHR 0x27] @ ''ORDERED'' @ [CHR 0x27] @ '').'')
               | Some lt \<Rightarrow>
                   if lt = []
                   then Rejected (''Error: '' @ [CHR 0x27] @ ''list_type'' @ [CHR 0x27] @
                     '' parameter is required for list insertion ('' @ [CHR 0x27] @ ''UNORDERED'' @
                     [CHR 0x27] @ '' or '' @ [CHR 0x27] @ ''ORDERED'' @ [CHR 0x27] @ '').'')
                   else
                     (let item = (case text of None \<Rightarrow> ''List item''
                                  | Some t \<Rightarrow> if t = [] then ''List item'' else t)
                      in Built [create_insert_text_request index (item @ [CHR 0x0A]),
                                create_bullet_list_request index (index + int (length item) + 1) lt]))
            else if et = ''page_break'' then Built [create_insert_page_break_request index]
            else Rejected (''Error: Unsupported element type '' @ [CHR 0x27] @ et @ [CHR 0x27] @
                   ''. Supported types: '' @ [CHR 0x27] @ ''table'' @ [CHR 0x27] @ '', '' @
                   [CHR 0x27] @ ''list'' @ [CHR 0x27] @ '', '' @ [CHR 0x27] @ ''page_break'' @
                   [CHR 0x27] @ ''.'')))"

text \<open>The branch \<open>operation == "image"\<close>.\<close>

definition insert_image ::
  "(string \<Rightarrow> drive_file) \<Rightarrow> int \<Rightarrow> string option \<Rightarrow> int option \<Rightarrow> int option \<Rightarrow> tool_result" where
  "insert_image drive_files_get index image_source width height =
     (if \<not> truthy_str image_source
      then Raised (''Unexpected error: '' @ [CHR 0x27] @ ''image_source'' @ [CHR 0x27] @
                   '' is required for image operation'')
      else
        (let src = (case image_source of None \<Rightarrow> [] | Some x \<Rightarrow> x);
             is_drive_file = (\<not> (prefix ''http://'' src \<or> prefix ''https://'' src))
         in if is_drive_file then
              (case drive_files_get src of
                 DriveFailure e \<Rightarrow>
                   Rejected (''Error: Could not access Drive file '' @ src @ '': '' @ e)
               | DriveFile name mime \<Rightarrow>
                   (let mime_type = (case mime of None \<Rightarrow> [] | Some m \<Rightarrow> m)
                    in if \<not> prefix ''image/'' mime_type
                       then Rejected (''Error: File '' @ src @ '' is not an image (MIME type: '' @
                              mime_type @ '').'')
                       else Built [create_insert_image_request index
                                     (''https://drive.google.com/uc?id='' @ src) width height]))
            else Built [create_insert_image_request index src width height]))"

text \<open>
  The end of the branch \<open>operation == "table"\<close>, after the attempts \<open>tried\<close>: \<open>index\<close> is the
  adjusted index of the call (not the index of the last attempt).
\<close>

definition table_report :: "int list \<Rightarrow> int \<Rightarrow> attempt \<Rightarrow> tool_result" where
  "table_report tried index a =
     (case a of
        AttemptHttpError e \<Rightarrow> TableRaised tried (''API error: '' @ e)
      | AttemptError e \<Rightarrow> TableRaised tried (''Unexpected error: '' @ e)
      | Attempt success message rows columns \<Rightarrow>
          if success
          then TableDone tried message
                 (case rows of None \<Rightarrow> 0 | Some r \<Rightarrow> r)
                 (case columns of None \<Rightarrow> 0 | Some c \<Rightarrow> c) index
          else TableFailed tried (''ERROR: '' @ message))"

text \<open>The branch \<open>operation == "table"\<close>.\<close>

definition insert_table ::
  "(string \<Rightarrow> string list list \<Rightarrow> int \<Rightarrow> bool \<Rightarrow> attempt) \<Rightarrow> validation_manager \<Rightarrow> string \<Rightarrow> int
     \<Rightarrow> string list list option \<Rightarrow> bool \<Rightarrow> tool_result" where
  "insert_table create_and_populate_table validator document_id index table_data bold_headers =
     (case table_data of
        None \<Rightarrow>
          Raised (''Unexpected error: '' @ [CHR 0x27] @ ''table_data'' @ [CHR 0x27] @
                  '' is required for table operation'')
      | Some data \<Rightarrow>
          if data = []
          then Raised (''Unexpected error: '' @ [CHR 0x27] @ ''table_data'' @ [CHR 0x27] @
                       '' is required for table operation'')
          else if \<not> fst (validate_document_id validator document_id)
          then Rejected (''ERROR: '' @ snd (validate_document_id validator document_id))
          else if \<not> fst (validate_table_data validator data)
          then Rejected (''ERROR: '' @ snd (validate_table_data validator data))
          else if \<not> fst (validate_index validator index ''Index'')
          then Rejected (''ERROR: '' @ snd (validate_index validator index ''Index''))
          else
            (case create_and_populate_table document_id data index bold_headers of
               Attempt success message rows columns \<Rightarrow>
                 if \<not> success \<and> str_contains ''must be less than the end index'' message
                 then table_report [index, index - 1] index
                        (create_and_populate_table document_id data (index - 1) bold_headers)
                 else table_report [index] index (Attempt success message rows columns)
             | a \<Rightarrow> table_report [index] index a))"

definition insert_doc_elements ::
  "(string \<Rightarrow> string list list \<Rightarrow> int \<Rightarrow> bool \<Rightarrow> attempt) \<Rightarrow> (string \<Rightarrow> drive_file) \<Rightarrow>
   validation_manager \<Rightarrow> string \<Rightarrow> string \<Rightarrow> int \<Rightarrow> string option \<Rightarrow> int option \<Rightarrow> int option \<Rightarrow>
   string option \<Rightarrow> string option \<Rightarrow> string option \<Rightarrow> int option \<Rightarrow> int option \<Rightarrow>
   string list list option \<Rightarrow> bool \<Rightarrow> tool_result" where
  "insert_doc_elements create_and_populate_table drive_files_get validator document_id operation
       index element_type rows columns list_type text image_source width height table_data
       bold_headers =
     (let index = (if index = 0 then 1 else index)
      in if operation = ''text_elements''
         then insert_text_elements index element_type rows columns list_type text
         else if operation = ''image''
         then insert_image drive_files_get index image_source width height
         else if operation = ''table''
         then insert_table create_and_populate_table validator document_id index table_data
                bold_headers
         else Raised (''Unexpected error: Invalid operation: '' @ operation))"

section \<open>The document as a sequence of code units\<close>

text \<open>
  Modelled from the spec: the document service is outside the repository. The spec gives a
  document's content as one ordered sequence of code units, position 0 held by the section
  marker, and a batch as a list of operations applied strictly in order, each against the
  content left by the operations before it. \<open>apply_op\<close> is the text insertion and the range
  deletion on such a sequence: an insertion at \<open>i\<close> puts the text before the unit at \<open>i\<close>, a
  deletion of \<open>[s, e)\<close> removes the units from \<open>s\<close> up to \<open>e - 1\<close>. An operation at position 0
  (an insertion at 0, a deletion whose range includes 0) is refused, and so is an empty
  range, a range that reaches beyond the end of the content, and an insertion at an index
  that is not strictly less than the end index of the content, the boundary error of the
  spec (\<open>None\<close>). The other operations are given no meaning here (\<open>None\<close>).
\<close>

definition apply_op :: "edit_op \<Rightarrow> string \<Rightarrow> string option" where
  "apply_op r d =
     (case r of
        InsertText i t \<Rightarrow>
          if 1 \<le> i \<and> i < int (length d)
          then Some (take (nat i) d @ t @ drop (nat i) d) else None
      | DeleteRange s e \<Rightarrow>
          if 1 \<le> s \<and> s < e \<and> e \<le> int (length d)
          then Some (take (nat s) d @ drop (nat e) d) else None
      | _ \<Rightarrow> None)"

fun apply_batch :: "edit_op list \<Rightarrow> string \<Rightarrow> string option" where
  "apply_batch [] d = Some d"
| "apply_batch (r # rs) d = (case apply_op r d of None \<Rightarrow> None | Some d' \<Rightarrow> apply_batch rs d')"

section \<open>\<open>modify_doc_content\<close>, operation \<open>edit_text\<close>\<close>

text \<open>The block "Handle text insertion/replacement": the requests it appends.\<close>

definition text_requests :: "int \<Rightarrow> int option \<Rightarrow> string option \<Rightarrow> edit_op list" where
  "text_requests start_index end_index text =
     (case text of
        None \<Rightarrow> []
      | Some t \<Rightarrow>
          (case end_index of
             None \<Rightarrow> [create_insert_text_request (if start_index = 0 then 1 else start_index) t]
           | Some e \<Rightarrow>
               if e > start_index then
                 (if start_index = 0 then
                    [create_insert_text_request 1 t,
                     create_delete_range_request (1 + int (length t)) (e + int (length t))]
                  else
                    [create_delete_range_request start_index e,
                     create_insert_text_request start_index t])
               else [create_insert_text_request (if start_index = 0 then 1 else start_index) t]))"

text \<open>
  The block "Handle formatting", reached with an \<open>end_index\<close> that is not \<open>None\<close>: the pair
  \<open>(format_start, format_end)\<close> given to \<open>create_format_text_request\<close>.
\<close>

definition format_range :: "int \<Rightarrow> int \<Rightarrow> string option \<Rightarrow> int \<times> int" where
  "format_range start_index end_index text =
     (let (format_start, format_end) =
            (case text of
               None \<Rightarrow> (start_index, end_index)
             | Some t \<Rightarrow>
                 if end_index > start_index then (start_index, start_index + int (length t))
                 else (let actual_index = (if start_index = 0 then 1 else start_index)
                       in (actual_index, actual_index + int (length t))));
          format_start = (if format_start = 0 then 1 else format_start);
          format_end = (if format_end \<le> format_start then format_start + 1 else format_end)
      in (format_start, format_end))"

record edit_text_payload =
  start_index :: "int option"
  end_index :: "int option"
  "text" :: "string option"
  bold :: "bool option"
  italic :: "bool option"
  underline :: "bool option"
  font_size :: "int option"
  font_family :: "string option"

text \<open>
  \<open>any([bold is not None, italic is not None, underline is not None, font_size, font_family])\<close>
\<close>

definition any_formatting :: "edit_text_payload \<Rightarrow> bool" where
  "any_formatting p =
     (bold p \<noteq> None \<or> italic p \<noteq> None \<or> underline p \<noteq> None \<or>
      truthy_int (font_size p) \<or> truthy_str (font_family p))"

definition edit_text :: "validation_manager \<Rightarrow> string \<Rightarrow> edit_text_payload \<Rightarrow> tool_result" where
  "edit_text validator document_id p =
     (case start_index p of
        None \<Rightarrow>
          Raised (''Unexpected error: '' @ [CHR 0x27] @ ''start_index'' @ [CHR 0x27] @
                  '' is required for edit_text operation'')
      | Some start \<Rightarrow>
          if \<not> fst (validate_document_id validator document_id)
          then Rejected (''Error: '' @ snd (validate_document_id validator document_id))
          else if text p = None \<and> \<not> any_formatting p
          then Rejected (''Error: Must provide either '' @ [CHR 0x27] @ ''text'' @ [CHR 0x27] @
                 '' to insert/replace, or formatting parameters '' @
                 ''(bold, italic, underline, font_size, font_family).'')
          else if any_formatting p then
            (let fmt = validate_text_formatting_params validator
                         (bold p) (italic p) (underline p) (font_size p) (font_family p)
             in if \<not> fst fmt then Rejected (''Error: '' @ snd fmt)
                else
                  (case end_index p of
                     None \<Rightarrow>
                       Rejected (''Error: '' @ [CHR 0x27] @ ''end_index'' @ [CHR 0x27] @
                                 '' is required when applying formatting.'')
                   | Some e \<Rightarrow>
                       if \<not> fst (validate_index_range validator start e)
                       then Rejected (''Error: '' @ snd (validate_index_range validator start e))
                       else
                         Built (text_requests start (Some e) (text p) @
                                [create_format_text_request
                                   (fst (format_range start e (text p)))
                                   (snd (format_range start e (text p)))
                                   (bold p) (italic p) (underline p)
                                   (font_size p) (font_family p)])))
          else Built (text_requests start (end_index p) (text p)))"

section \<open>Statements of the specification\<close>

text \<open>
  The actual final range of the new text of a batch: the text of the first insertion of
  the batch lies at \<open>[i, i + len t)\<close>, \<open>i\<close> the index of that insertion. (In the batches
  of \<open>edit_text\<close> a deletion comes before the insertion, or after it and behind the text.)
\<close>

definition new_text_range :: "edit_op list \<Rightarrow> (int \<times> int) option" where
  "new_text_range reqs =
     (case List.map_filter
             (\<lambda>r. case r of InsertText i t \<Rightarrow> Some (i, i + int (length t)) | _ \<Rightarrow> None) reqs of
        [] \<Rightarrow> None
      | x # xs \<Rightarrow> Some x)"

text \<open>
  The two-step workaround of the specification at any start: insert the new text before the
  range, then delete the original range shifted forward by the length of the new text.
\<close>

definition index0_workaround :: "int \<Rightarrow> int \<Rightarrow> string \<Rightarrow> edit_op list" where
  "index0_workaround s e t =
     [InsertText s t, DeleteRange (s + int (length t)) (e + int (length t))]"

text \<open>
  The labelled blocks of the specification: every tab, depth-first, gives a header line
  with its title indented four spaces per level, then the text of its body. \<open>labelled\<close>
  holds of the tabs that carry a \<open>documentTab\<close> and, at the top level, a title that is not
  the empty string.
\<close>

fun tab_blocks :: "tab \<Rightarrow> nat \<Rightarrow> string" where
  "tab_blocks (Tab dt children) k =
     TAB_HEADER_FORMAT
       (replicate (4 * k) CHR '' '' @
        (case dt of Some (DocumentTab (Some t) b) \<Rightarrow> t | _ \<Rightarrow> ''Untitled Tab'')) @
     extract_text_from_elements (case dt of Some (DocumentTab t b) \<Rightarrow> b | None \<Rightarrow> []) None 0 @
     concat (map (\<lambda>c. tab_blocks c (Suc k)) children)"

fun labelled :: "tab \<Rightarrow> nat \<Rightarrow> bool" where
  "labelled (Tab dt children) k =
     ((case dt of None \<Rightarrow> False | Some (DocumentTab t b) \<Rightarrow> 0 < k \<or> t \<noteq> Some []) \<and>
      (\<forall>c \<in> set children. labelled c (Suc k)))"

text \<open>The position an operation addresses: its index, or the start of its range.\<close>

fun target :: "edit_op \<Rightarrow> int option" where
  "target (InsertText i t) = Some i"
| "target (DeleteRange s e) = Some s"
| "target (FormatText s e b i u fs ff) = Some s"
| "target (FindReplace f r m) = None"
| "target (InsertTable i r c) = Some i"
| "target (InsertImage i u w h) = Some i"
| "target (InsertPageBreak i) = Some i"
| "target (CreateBullets s e l) = Some s"

section \<open>Concrete collaborators\<close>

text \<open>A validation manager that accepts every argument.\<close>

definition accept_all :: validation_manager where
  "accept_all =
     \<lparr> validate_document_id = (\<lambda>d. (True, [])),
       validate_text_formatting_params = (\<lambda>b i u fs ff. (True, [])),
       validate_index_range = (\<lambda>s e. (True, [])),
       validate_table_data = (\<lambda>d. (True, [])),
       validate_index = (\<lambda>i n. (True, [])) \<rparr>"

text \<open>
  A table manager on a document whose end index is 40: an attempt below 40 succeeds, an
  attempt at 50 or at 49 is refused with the service's boundary message for that index.
\<close>

definition manager_end_40 :: "string \<Rightarrow> string list list \<Rightarrow> int \<Rightarrow> bool \<Rightarrow> attempt" where
  "manager_end_40 document_id table_data index bold_headers =
     (if index < 40 then Attempt True ''Table created'' (Some 1) (Some 1)
      else if index = 50
      then Attempt False ''Index 50 must be less than the end index of the referenced segment, 40.''
             None None
      else if index = 49
      then Attempt False ''Index 49 must be less than the end index of the referenced segment, 40.''
             None None
      else Attempt False ''Index must be less than the end index of the referenced segment, 40.''
             None None)"

text \<open>
  A table manager on a document whose end index is 50: the scenario of the specification.
\<close>

definition manager_end_50 :: "string \<Rightarrow> string list list \<Rightarrow> int \<Rightarrow> bool \<Rightarrow> attempt" where
  "manager_end_50 document_id table_data index bold_headers =
     (if index < 50 then Attempt True ''Table created'' (Some 1) (Some 1)
      else Attempt False ''Index 50 must be less than the end index of the referenced segment, 50.''
             None None)"

text \<open>
  A table manager whose cell population is refused with a boundary message, whatever the
  index of the table.
\<close>

definition manager_population_fails :: "string \<Rightarrow> string list list \<Rightarrow> int \<Rightarrow> bool \<Rightarrow> attempt" where
  "manager_population_fails document_id table_data index bold_headers =
     Attempt False
       ''Failed to populate cell: Index 12 must be less than the end index of the referenced segment, 12.''
       None None"

definition no_drive :: "string \<Rightarrow> drive_file" where
  "no_drive file_id = DriveFailure ''File not found''"

text \<open>
  The scenario of the specification: one tab with one child tab, each with one paragraph.
\<close>

definition parent_child_doc :: doc_data where
  "parent_child_doc = \<lparr> body = [], tabs =
     [Tab (Some (DocumentTab (Some ''Parent'') [Paragraph [Some ''one'']]))
        [Tab (Some (DocumentTab (Some ''Child'') [Paragraph [Some ''two'']])) []]] \<rparr>"

text \<open>An element tree that nests a table in a cell forever, with a paragraph at each level.\<close>

primcorec nested_forever :: "nat \<Rightarrow> element" where
  "nested_forever n =
     Table [[map (\<lambda>k. if k = 0 then Paragraph [Some ''a''] else nested_forever k) [0, Suc n]]]"

section \<open>Text extraction: blank pieces, depth bound, tabs\<close>

lemma strip_empty_iff: "strip s = [] \<longleftrightarrow> (\<forall>c \<in> set s. py_isspace c)"
proof -
  define d where "d = dropWhile py_isspace s"
  have "(\<forall>c \<in> set d. py_isspace c) \<longleftrightarrow> d = []"
  proof (cases "d = []")
    case True
    then show ?thesis by simp
  next
    case False
    then have "hd d \<in> set d" by simp
    moreover from False have "\<not> py_isspace (hd d)"
      unfolding d_def by (rule hd_dropWhile)
    ultimately show ?thesis using False by blast
  qed
  moreover have "d = [] \<longleftrightarrow> (\<forall>c \<in> set s. py_isspace c)"
    unfolding d_def by (simp add: dropWhile_eq_Nil_conv)
  moreover have "strip s = [] \<longleftrightarrow> (\<forall>c \<in> set d. py_isspace c)"
    unfolding d_def by (simp add: strip_def dropWhile_eq_Nil_conv)
  ultimately show ?thesis by simp
qed

lemma strip_append_empty: "strip (a @ b) = [] \<longleftrightarrow> strip a = [] \<and> strip b = []"
  by (auto simp: strip_empty_iff)

lemma strip_concat_empty: "strip (concat xs) = [] \<longleftrightarrow> (\<forall>x \<in> set xs. strip x = [])"
  by (auto simp: strip_empty_iff)

lemma strip_Nil: "strip [] = []"
  by (simp add: strip_def)

lemma strip_header: "strip (TAB_HEADER_FORMAT n) \<noteq> []"
  by (simp add: strip_empty_iff TAB_HEADER_FORMAT_def py_isspace_def)

lemma blank_pieces:
  assumes "strip (concat (map f xs)) = []" and "\<And>x. x \<in> set xs \<Longrightarrow> strip (f x) = [] \<Longrightarrow> f x = []"
  shows "concat (map f xs) = []"
  using assms by (auto simp: strip_concat_empty)

lemma extract_blank:
  assumes "strip (extract_text_from_elements elements tab_name depth) = []"
  shows "extract_text_from_elements elements tab_name depth = []"
proof (cases "5 < depth")
  case True
  then show ?thesis by (simp add: extract_text_from_elements.simps)
next
  case False
  let ?hdr = "case tab_name of None \<Rightarrow> [] | Some n \<Rightarrow> if n \<noteq> [] then TAB_HEADER_FORMAT n else []"
  let ?cellf = "\<lambda>cell_content. (let cell_text = extract_text_from_elements cell_content None (depth + 1)
                   in if strip cell_text \<noteq> [] then cell_text else [])"
  let ?elf = "\<lambda>element.
          case element of
            Paragraph para_elements \<Rightarrow>
              (let current_line_text =
                     concat (map (\<lambda>pe. case pe of None \<Rightarrow> [] | Some c \<Rightarrow> c) para_elements)
               in if strip current_line_text \<noteq> [] then current_line_text else [])
          | Table table_rows \<Rightarrow>
              concat (map (\<lambda>row_cells. concat (map ?cellf row_cells)) table_rows)
          | SectionBreak \<Rightarrow> []"
  have eq: "extract_text_from_elements elements tab_name depth = ?hdr @ concat (map ?elf elements)"
    using False by (subst extract_text_from_elements.simps) simp
  have cell: "\<And>c. strip (?cellf c) = [] \<Longrightarrow> ?cellf c = []"
    by (simp add: Let_def split: if_splits)
  have row: "\<And>r. strip (concat (map ?cellf r)) = [] \<Longrightarrow> concat (map ?cellf r) = []"
    by (rule blank_pieces) (auto dest: cell)
  have el: "\<And>e. strip (?elf e) = [] \<Longrightarrow> ?elf e = []"
  proof -
    fix e assume b: "strip (?elf e) = []"
    show "?elf e = []"
    proof (cases e)
      case (Paragraph pes)
      with b show ?thesis by (simp add: Let_def split: if_splits)
    next
      case (Table rows)
      with b have "strip (concat (map (\<lambda>row_cells. concat (map ?cellf row_cells)) rows)) = []" by simp
      then have "concat (map (\<lambda>row_cells. concat (map ?cellf row_cells)) rows) = []"
        by (rule blank_pieces) (rule row)
      with Table show ?thesis by simp
    next
      case SectionBreak
      then show ?thesis by simp
    qed
  qed
  from assms eq have h: "strip ?hdr = []" and b: "strip (concat (map ?elf elements)) = []"
    by (simp_all add: strip_append_empty)
  from h have "?hdr = []"
    by (auto simp: strip_header split: option.splits if_splits)
  moreover from b have "concat (map ?elf elements) = []"
    by (rule blank_pieces) (rule el)
  ultimately show ?thesis using eq by simp
qed

lemma process_blank:
  "strip (process_tab_hierarchy t level) = [] \<Longrightarrow> process_tab_hierarchy t level = []"
proof (induction t level rule: process_tab_hierarchy.induct)
  case (1 document_tab child_tabs level)
  let ?own = "case document_tab of
        None \<Rightarrow> []
      | Some (DocumentTab title tab_body) \<Rightarrow>
          (let tab_title = (case title of None \<Rightarrow> ''Untitled Tab'' | Some t \<Rightarrow> t);
               tab_title = (if level > 0
                            then concat (replicate (nat level) ''    '') @ tab_title
                            else tab_title)
           in extract_text_from_elements tab_body (Some tab_title) 0)"
  let ?kids = "concat (map (\<lambda>child_tab. process_tab_hierarchy child_tab (level + 1)) child_tabs)"
  from "1.prems" have o: "strip ?own = []" and k: "strip ?kids = []"
    by (simp_all add: strip_append_empty)
  from o have "?own = []"
    by (auto simp: Let_def dest: extract_blank split: option.splits document_tab.splits)
  moreover from k have "?kids = []"
    by (rule blank_pieces) (rule "1.IH")
  ultimately show ?case by simp
qed



lemma extract_unfold:
  "\<not> 5 < depth \<Longrightarrow>
   extract_text_from_elements elements tab_name depth =
     (case tab_name of None \<Rightarrow> [] | Some n \<Rightarrow> if n \<noteq> [] then TAB_HEADER_FORMAT n else []) @
     concat (map (\<lambda>element.
          case element of
            Paragraph para_elements \<Rightarrow>
              (let current_line_text =
                     concat (map (\<lambda>pe. case pe of None \<Rightarrow> [] | Some c \<Rightarrow> c) para_elements)
               in if strip current_line_text \<noteq> [] then current_line_text else [])
          | Table table_rows \<Rightarrow>
              concat (map (\<lambda>row_cells.
                concat (map (\<lambda>cell_content.
                  (let cell_text = extract_text_from_elements cell_content None (depth + 1)
                   in if strip cell_text \<noteq> [] then cell_text else [])) row_cells)) table_rows)
          | SectionBreak \<Rightarrow> []) elements)"
  by (subst extract_text_from_elements.simps) simp

lemma extract_truncated: "5 < depth \<Longrightarrow> extract_text_from_elements elements tab_name depth = []"
  by (subst extract_text_from_elements.simps) simp

lemma extract_Nil: "extract_text_from_elements [] None 0 = []"
  by (simp add: extract_unfold[of 0 "[]" None])

lemma extract_par:
  "extract_text_from_elements [Paragraph [Some s]] None 0 = (if strip s \<noteq> [] then s else [])"
  by (simp add: extract_unfold[of 0 "[Paragraph [Some s]]" None] Let_def)

text \<open>
  The recursion is well-founded on every argument, whatever the tree: each call into a cell
  is made at a depth of at most 5 and raises the depth by one.
\<close>

lemma extract_dom_all: "extract_text_from_elements_dom (elements, tab_name, depth)"
proof (induction "nat (6 - depth)" arbitrary: elements tab_name depth rule: less_induct)
  case less
  show ?case
  proof (rule extract_text_from_elements.domintros)
    fix x x2 xa xb
    assume "\<not> 5 < depth"
    then have "nat (6 - (depth + 1)) < nat (6 - depth)" by simp
    then show "extract_text_from_elements_dom (xb, None, depth + 1)" by (rule less)
  qed
qed

text \<open>
  C6. For every element tree, of any nesting depth of tables inside cells (the trees of
  \<open>element\<close> include the ones that nest forever), the extraction walk terminates: every
  argument lies in the domain on which the recursion is well-founded, so the call returns a
  string. A call at a depth beyond 5 returns the empty string without looking at its
  elements, so a branch nested beyond 5 levels of table-in-cell is truncated and the rest
  of the extraction goes on.
\<close>

theorem extraction_terminates_and_truncates:
  "extract_text_from_elements_dom (elements, tab_name, depth) \<and>
   (5 < depth \<longrightarrow> extract_text_from_elements elements tab_name depth = [])"
  by (simp add: extract_dom_all extract_truncated)

theorem extraction_terminates_and_truncates_witness:
  "extract_text_from_elements_dom ([Paragraph [Some ''a''], nested_forever 0], None, 0) \<and>
   (5::int) < 6 \<and>
   extract_text_from_elements [Paragraph [Some ''a''], nested_forever 0] None 6 = []"
  using extraction_terminates_and_truncates[of "[Paragraph [Some ''a''], nested_forever 0]" None 0]
        extraction_terminates_and_truncates[of "[Paragraph [Some ''a''], nested_forever 0]" None 6]
  by simp

text \<open>
  On the tree that nests forever, with the paragraph \<open>a\<close> at every level, the walk returns
  the six paragraphs of the levels 0 to 5.
\<close>

lemma nested_step:
  assumes "\<not> 5 < d"
  shows "extract_text_from_elements [Paragraph [Some ''a''], nested_forever n] None d =
         ''a'' @ (let c = extract_text_from_elements
                            [Paragraph [Some ''a''], nested_forever (Suc n)] None (d + 1)
                  in if strip c \<noteq> [] then c else [])"
  using assms
  apply (subst extract_unfold, assumption)
  apply (subst nested_forever.code)
  apply (simp add: strip_def py_isspace_def Let_def)
  done

lemma strip_as: "strip ''a'' \<noteq> []" "strip ''aa'' \<noteq> []" "strip ''aaa'' \<noteq> []"
  "strip ''aaaa'' \<noteq> []" "strip ''aaaaa'' \<noteq> []"
  by (simp_all add: strip_def py_isspace_def)

lemma nested_forever_text:
  "extract_text_from_elements [Paragraph [Some ''a''], nested_forever 0] None 0 = ''aaaaaa''"
proof -
  have 6: "extract_text_from_elements [Paragraph [Some ''a''], nested_forever 6] None 6 = []"
    by (simp add: extract_truncated)
  have 5: "extract_text_from_elements [Paragraph [Some ''a''], nested_forever 5] None 5 = ''a''"
    using nested_step[of 5 5] 6 by (simp add: strip_Nil numeral_eq_Suc)
  have 4: "extract_text_from_elements [Paragraph [Some ''a''], nested_forever 4] None 4 = ''aa''"
    using nested_step[of 4 4] 5 by (simp add: strip_as eval_nat_numeral)
  have 3: "extract_text_from_elements [Paragraph [Some ''a''], nested_forever 3] None 3 = ''aaa''"
    using nested_step[of 3 3] 4 by (simp add: strip_as eval_nat_numeral)
  have 2: "extract_text_from_elements [Paragraph [Some ''a''], nested_forever 2] None 2 = ''aaaa''"
    using nested_step[of 2 2] 3 by (simp add: strip_as eval_nat_numeral)
  have 1: "extract_text_from_elements [Paragraph [Some ''a''], nested_forever 1] None 1 = ''aaaaa''"
    using nested_step[of 1 1] 2 by (simp add: strip_as eval_nat_numeral)
  show ?thesis
    using nested_step[of 0 0] 1 by (simp add: strip_as)
qed

lemma blank_paragraph:
  assumes "strip (concat (map (\<lambda>pe. case pe of None \<Rightarrow> [] | Some c \<Rightarrow> c) para_elements)) = []"
  shows "extract_text_from_elements (before @ Paragraph para_elements # after) tab_name depth =
         extract_text_from_elements (before @ after) tab_name depth"
proof (cases "5 < depth")
  case True
  then show ?thesis by (simp add: extract_truncated)
next
  case False
  show ?thesis
    using assms
    by (simp add: extract_unfold[OF False, of "before @ Paragraph para_elements # after"]
                  extract_unfold[OF False, of "before @ after"] Let_def)
qed

lemma blank_cell:
  assumes "strip (extract_text_from_elements cell_content None (depth + 1)) = []"
  shows "extract_text_from_elements
           (before @ Table (rows_before @ (cells_before @ cell_content # cells_after) # rows_after) # after) tab_name depth =
         extract_text_from_elements
           (before @ Table (rows_before @ (cells_before @ cells_after) # rows_after) # after) tab_name depth"
proof (cases "5 < depth")
  case True
  then show ?thesis by (simp add: extract_truncated)
next
  case False
  show ?thesis
    using assms
    by (simp add: extract_unfold[OF False, of "before @ Table (rows_before @ (cells_before @ cell_content # cells_after) # rows_after) # after"]
                  extract_unfold[OF False, of "before @ Table (rows_before @ (cells_before @ cells_after) # rows_after) # after"] Let_def)
qed

lemma blank_main:
  assumes "strip (extract_text_from_elements (body doc) None 0) = []"
  shows "body_text doc = body_text (doc\<lparr>body := []\<rparr>)"
  using assms by (simp add: body_text_def extract_Nil strip_Nil Let_def)

lemma blank_top_tab:
  assumes "strip (process_tab_hierarchy t 0) = []"
  shows "body_text (doc\<lparr>tabs := tabs_before @ t # tabs_after\<rparr>) = body_text (doc\<lparr>tabs := tabs_before @ tabs_after\<rparr>)"
  using assms by (simp add: body_text_def Let_def)

lemma blank_child_tab:
  assumes "strip (process_tab_hierarchy t (level + 1)) = []"
  shows "process_tab_hierarchy (Tab dt (tabs_before @ t # tabs_after)) level =
         process_tab_hierarchy (Tab dt (tabs_before @ tabs_after)) level"
  using process_blank[OF assms] by simp

text \<open>
  C10. Blank content is dropped. A paragraph whose concatenated run text is empty or only
  whitespace contributes nothing: the extraction is the one of the list without it. A table
  cell whose extracted text is only whitespace is omitted in the same way. A main body
  whose extracted text is only whitespace contributes no block, and neither does a tab
  whose whole extracted text is only whitespace, at the top level or as a child tab.
\<close>

theorem blank_content_dropped:
  "(strip (concat (map (\<lambda>pe. case pe of None \<Rightarrow> [] | Some c \<Rightarrow> c) para_elements)) = [] \<longrightarrow>
      extract_text_from_elements (before @ Paragraph para_elements # after) tab_name depth =
      extract_text_from_elements (before @ after) tab_name depth) \<and>
   (strip (extract_text_from_elements cell_content None (depth + 1)) = [] \<longrightarrow>
      extract_text_from_elements
        (before @ Table (rows_before @ (cells_before @ cell_content # cells_after) # rows_after) # after) tab_name depth =
      extract_text_from_elements
        (before @ Table (rows_before @ (cells_before @ cells_after) # rows_after) # after) tab_name depth) \<and>
   (strip (extract_text_from_elements (body doc) None 0) = [] \<longrightarrow>
      body_text doc = body_text (doc\<lparr>body := []\<rparr>)) \<and>
   (strip (process_tab_hierarchy t 0) = [] \<longrightarrow>
      body_text (doc\<lparr>tabs := tabs_before @ t # tabs_after\<rparr>) = body_text (doc\<lparr>tabs := tabs_before @ tabs_after\<rparr>)) \<and>
   (strip (process_tab_hierarchy t (level + 1)) = [] \<longrightarrow>
      process_tab_hierarchy (Tab dt (tabs_before @ t # tabs_after)) level =
      process_tab_hierarchy (Tab dt (tabs_before @ tabs_after)) level)"
  by (intro conjI impI; erule blank_paragraph blank_cell blank_main blank_top_tab blank_child_tab)

theorem blank_content_dropped_witness:
  "strip (concat (map (\<lambda>pe. case pe of None \<Rightarrow> [] | Some c \<Rightarrow> c) [Some '' '', None, Some [CHR 0x0A]])) = [] \<and>
   extract_text_from_elements
     [Paragraph [Some ''a''], Paragraph [Some '' '', None, Some [CHR 0x0A]], Paragraph [Some ''b'']] None 0 = ''ab'' \<and>
   strip (extract_text_from_elements [Paragraph [Some '' '']] None 1) = [] \<and>
   extract_text_from_elements
     [Paragraph [Some ''a''], Table [[[Paragraph [Some ''c'']], [Paragraph [Some '' '']]]], Paragraph [Some ''b'']]
     None 0 = ''acb'' \<and>
   strip (extract_text_from_elements [Paragraph [Some '' '']] None 0) = [] \<and>
   body_text \<lparr>body = [Paragraph [Some '' '']], tabs = []\<rparr> = [] \<and>
   strip (process_tab_hierarchy (Tab None []) 0) = [] \<and>
   body_text \<lparr>body = [Paragraph [Some '' '']], tabs = [Tab None []]\<rparr> = [] \<and>
   strip (process_tab_hierarchy (Tab None []) 1) = [] \<and>
   process_tab_hierarchy (Tab None [Tab None []]) 0 = []"
proof -
  have sp: "strip ''a'' \<noteq> []" "strip ''b'' \<noteq> []" "strip ''c'' \<noteq> []"
    by (simp_all add: strip_def py_isspace_def)
  have p: "strip (concat (map (\<lambda>pe. case pe of None \<Rightarrow> [] | Some c \<Rightarrow> c) [Some '' '', None, Some [CHR 0x0A]])) = []"
    by (simp add: strip_def py_isspace_def)
  have c: "strip (extract_text_from_elements [Paragraph [Some '' '']] None (0 + 1)) = []"
    by (simp add: extract_unfold[of 1 "[Paragraph [Some '' '']]" None] strip_def py_isspace_def)
  have m: "strip (extract_text_from_elements (body \<lparr>body = [Paragraph [Some '' '']], tabs = []\<rparr>) None 0) = []"
    by (simp add: extract_par strip_def py_isspace_def)
  have t0: "strip (process_tab_hierarchy (Tab None []) 0) = []"
    by (simp add: strip_def)
  have t1: "strip (process_tab_hierarchy (Tab None []) (0 + 1)) = []"
    by (simp add: strip_def)
  have ab: "extract_text_from_elements [Paragraph [Some ''a''], Paragraph [Some ''b'']] None 0 = ''ab''"
    by (simp add: extract_unfold[of 0 "[Paragraph [Some ''a''], Paragraph [Some ''b'']]" None] sp)
  have acb: "extract_text_from_elements
      [Paragraph [Some ''a''], Table [[[Paragraph [Some ''c'']]]], Paragraph [Some ''b'']] None 0 = ''acb''"
    by (simp add: extract_unfold[of 0 "[Paragraph [Some ''a''], Table [[[Paragraph [Some ''c'']]]], Paragraph [Some ''b'']]" None]
          extract_unfold[of 1 "[Paragraph [Some ''c'']]" None] sp)
  have e: "body_text \<lparr>body = [], tabs = []\<rparr> = []"
    by (simp add: body_text_def extract_Nil strip_Nil)
  note w = blank_content_dropped[where para_elements = "[Some '' '', None, Some [CHR 0x0A]]"
      and before = "[Paragraph [Some ''a'']]" and after = "[Paragraph [Some ''b'']]"
      and tab_name = None and depth = 0
      and cell_content = "[Paragraph [Some '' '']]" and rows_before = "[]" and rows_after = "[]"
      and cells_before = "[[Paragraph [Some ''c'']]]" and cells_after = "[]"
      and doc = "\<lparr>body = [Paragraph [Some '' '']], tabs = []\<rparr>"
      and t = "Tab None []" and tabs_before = "[]" and tabs_after = "[]" and level = 0 and dt = None]
  show ?thesis using w p c m t0 t1 ab acb e by simp
qed

lemma extract_header:
  "n \<noteq> [] \<Longrightarrow> extract_text_from_elements elements (Some n) 0 =
     TAB_HEADER_FORMAT n @ extract_text_from_elements elements None 0"
  by (simp add: extract_unfold[of 0 elements "Some n"] extract_unfold[of 0 elements None])

lemma concat_replicate_spaces: "concat (replicate n ''    '') = replicate (4 * n) CHR '' ''"
proof (induction n)
  case 0
  show ?case by simp
next
  case (Suc n)
  have "replicate (4 * Suc n) CHR '' '' = replicate 4 CHR '' '' @ replicate (4 * n) CHR '' ''"
    by (simp add: replicate_add[symmetric])
  also have "replicate 4 CHR '' '' = ''    ''" by (simp add: numeral_eq_Suc)
  finally show ?case using Suc by simp
qed

lemma process_labelled:
  "labelled t k \<Longrightarrow> process_tab_hierarchy t (int k) = tab_blocks t k"
proof (induction t k rule: tab_blocks.induct)
  case (1 dt children k)
  from "1.prems" obtain title b where dt: "dt = Some (DocumentTab title b)"
    and lab: "0 < k \<or> title \<noteq> Some []"
    by (auto split: option.splits document_tab.splits)
  from "1.prems" have kids: "\<forall>c \<in> set children. labelled c (Suc k)" by simp
  have kidseq: "map (\<lambda>c. process_tab_hierarchy c (int k + 1)) children = map (\<lambda>c. tab_blocks c (Suc k)) children"
  proof (rule map_cong[OF refl])
    fix c assume c: "c \<in> set children"
    with kids have "labelled c (Suc k)" by blast
    with c have "process_tab_hierarchy c (int (Suc k)) = tab_blocks c (Suc k)" by (rule "1.IH")
    then show "process_tab_hierarchy c (int k + 1) = tab_blocks c (Suc k)" by (simp add: add.commute)
  qed
  have own: "(let tab_title = (case title of None \<Rightarrow> ''Untitled Tab'' | Some t \<Rightarrow> t);
               tab_title = (if int k > 0
                            then concat (replicate (nat (int k)) ''    '') @ tab_title
                            else tab_title)
           in extract_text_from_elements b (Some tab_title) 0)
        = TAB_HEADER_FORMAT (replicate (4 * k) CHR '' '' @ (case title of None \<Rightarrow> ''Untitled Tab'' | Some t \<Rightarrow> t))
          @ extract_text_from_elements b None 0"
  proof (cases "k = 0")
    case True
    with lab have "(case title of None \<Rightarrow> ''Untitled Tab'' | Some t \<Rightarrow> t) \<noteq> []"
      by (auto split: option.splits)
    then show ?thesis using True by (simp add: Let_def extract_header)
  next
    case False
    then have "replicate (4 * k) CHR '' '' @ (case title of None \<Rightarrow> ''Untitled Tab'' | Some t \<Rightarrow> t) \<noteq> []"
      by simp
    then show ?thesis using False by (simp add: Let_def extract_header concat_replicate_spaces)
  qed
  have "process_tab_hierarchy (Tab dt children) (int k) =
          (let tab_title = (case title of None \<Rightarrow> ''Untitled Tab'' | Some t \<Rightarrow> t);
               tab_title = (if int k > 0
                            then concat (replicate (nat (int k)) ''    '') @ tab_title
                            else tab_title)
           in extract_text_from_elements b (Some tab_title) 0) @
          concat (map (\<lambda>c. process_tab_hierarchy c (int k + 1)) children)"
    unfolding dt by (simp only: process_tab_hierarchy.simps option.case document_tab.case)
  also have "\<dots> = TAB_HEADER_FORMAT (replicate (4 * k) CHR '' '' @ (case title of None \<Rightarrow> ''Untitled Tab'' | Some t \<Rightarrow> t))
          @ extract_text_from_elements b None 0 @ concat (map (\<lambda>c. tab_blocks c (Suc k)) children)"
    unfolding own kidseq by simp
  also have "\<dots> = tab_blocks (Tab dt children) k"
    unfolding dt by (simp split: option.splits)
  finally show ?case .
qed

lemma body_text_unfiltered:
  "body_text doc = extract_text_from_elements (body doc) None 0 @
     concat (map (\<lambda>t. process_tab_hierarchy t 0) (tabs doc))"
proof -
  have m: "(let main_content = extract_text_from_elements (body doc) None 0
      in if strip main_content \<noteq> [] then main_content else []) = extract_text_from_elements (body doc) None 0"
    using extract_blank[of "body doc" None 0] by (auto simp: Let_def)
  have t: "map (\<lambda>tab. (let tab_content = process_tab_hierarchy tab 0
        in if strip tab_content \<noteq> [] then tab_content else [])) (tabs doc) = map (\<lambda>t. process_tab_hierarchy t 0) (tabs doc)"
    by (rule map_cong[OF refl]) (auto simp: Let_def dest: process_blank)
  show ?thesis unfolding body_text_def m t ..
qed

text \<open>
  C9, as amended. The main body's text comes first, then the tabs in order, each followed
  depth-first by its child tabs. Where every tab carries a \<open>documentTab\<close> and no top-level
  tab has the empty string as its title, each tab contributes a block that starts with the
  header line generated from its title, the title of a tab \<open>k\<close> levels below the top level
  indented by four spaces per level. The witness is the scenario of the specification: one
  tab with one child tab, each with one paragraph.
\<close>

theorem tab_blocks_in_order:
  assumes "\<forall>t \<in> set (tabs doc). labelled t 0"
  shows "body_text doc = extract_text_from_elements (body doc) None 0 @
           concat (map (\<lambda>t. tab_blocks t 0) (tabs doc))"
proof -
  have eq: "map (\<lambda>t. process_tab_hierarchy t 0) (tabs doc) = map (\<lambda>t. tab_blocks t 0) (tabs doc)"
  proof (rule map_cong[OF refl])
    fix t assume "t \<in> set (tabs doc)"
    with assms have "labelled t 0" by blast
    then show "process_tab_hierarchy t 0 = tab_blocks t 0"
      using process_labelled[of t 0] by simp
  qed
  show ?thesis unfolding body_text_unfiltered eq ..
qed

theorem tab_blocks_in_order_witness:
  "labelled (hd (tabs parent_child_doc)) 0 \<and>
   body_text parent_child_doc =
     CHR 0x0A # ''--- TAB: Parent ---'' @ CHR 0x0A # ''one'' @
     CHR 0x0A # ''--- TAB:     Child ---'' @ CHR 0x0A # ''two''"
proof -
  have l: "\<forall>t \<in> set (tabs parent_child_doc). labelled t 0" by (simp add: parent_child_doc_def)
  note e = extract_Nil
  have "body_text parent_child_doc = extract_text_from_elements (body parent_child_doc) None 0 @
           concat (map (\<lambda>t. tab_blocks t 0) (tabs parent_child_doc))"
    using l by (rule tab_blocks_in_order)
  also have "\<dots> = CHR 0x0A # ''--- TAB: Parent ---'' @ CHR 0x0A # ''one'' @
     CHR 0x0A # ''--- TAB:     Child ---'' @ CHR 0x0A # ''two''"
    by (simp add: parent_child_doc_def e extract_par strip_def py_isspace_def TAB_HEADER_FORMAT_def numeral_eq_Suc)
  finally show ?thesis by (simp add: parent_child_doc_def)
qed

text \<open>
  C9 as stated fails: a top-level tab whose title is the empty string contributes its text
  with no header line, and a tab without a \<open>documentTab\<close> contributes no block.
\<close>

theorem tab_without_header_counterexample:
  "body_text \<lparr> body = [], tabs = [Tab (Some (DocumentTab (Some []) [Paragraph [Some ''x'']])) []] \<rparr> = ''x''
   \<and> body_text \<lparr> body = [], tabs = [Tab None []] \<rparr> = []"
proof -
  note e = extract_Nil
  have x: "extract_text_from_elements [Paragraph [Some ''x'']] (Some []) 0 = ''x''"
    by (simp add: extract_unfold[of 0 "[Paragraph [Some ''x'']]" "Some []"] Let_def strip_def py_isspace_def)
  show ?thesis
    by (simp add: body_text_def e x Let_def strip_def py_isspace_def)
qed

section \<open>\<open>edit_text\<close>: the built batch\<close>

lemmas builders = create_insert_text_request_def create_delete_range_request_def
  create_format_text_request_def create_insert_table_request_def
  create_insert_page_break_request_def create_insert_image_request_def
  create_bullet_list_request_def

text \<open>
  A call that builds a batch has a start index and passed every check; the batch is the
  text requests, followed by one format request exactly when formatting was asked for.
\<close>

lemma edit_text_Built:
  assumes "edit_text v d p = Built reqs"
  obtains s where "start_index p = Some s" "\<not> any_formatting p"
      "reqs = text_requests s (end_index p) (text p)"
  | s e where "start_index p = Some s" "any_formatting p" "end_index p = Some e"
      "reqs = text_requests s (Some e) (text p) @
         [FormatText (fst (format_range s e (text p))) (snd (format_range s e (text p)))
            (bold p) (italic p) (underline p) (font_size p) (font_family p)]"
  using assms
  by (auto simp: edit_text_def Let_def builders split: option.splits if_splits)

text \<open>
  C1, as amended. For every \<open>edit_text\<close> call with text \<open>t\<close> and a non-degenerate range
  starting at 0 that builds a batch, the batch is the insertion of \<open>t\<close> at 1, then the
  deletion of \<open>[1 + len t, end_index + len t)\<close>, followed by one format operation when
  formatting parameters are supplied and by nothing otherwise; no delete operation of the
  batch has a range that includes position 0.
\<close>

theorem index0_replace_batch:
  assumes "edit_text v d p = Built reqs"
    and "start_index p = Some 0" and "end_index p = Some e" and "0 < e" and "text p = Some t"
  shows "reqs = [InsertText 1 t, DeleteRange (1 + int (length t)) (e + int (length t))] @
           (if any_formatting p
            then [FormatText 1 (if int (length t) \<le> 1 then 2 else int (length t))
                    (bold p) (italic p) (underline p) (font_size p) (font_family p)]
            else [])
         \<and> (\<forall>a b. DeleteRange a b \<in> set reqs \<longrightarrow> \<not> (a \<le> 0 \<and> 0 < b))"
  using assms
  by (auto elim!: edit_text_Built simp: text_requests_def format_range_def builders Let_def)

theorem index0_replace_batch_witness:
  "edit_text accept_all ''doc''
     \<lparr>start_index = Some 0, end_index = Some 10, text = Some ''hi'', bold = None, italic = None,
      underline = None, font_size = None, font_family = None\<rparr>
   = Built [InsertText 1 ''hi'', DeleteRange 3 12]
   \<and> DeleteRange 3 12 \<in> set [InsertText 1 ''hi'', DeleteRange 3 12]
   \<and> \<not> ((3::int) \<le> 0 \<and> (0::int) < 12)"
proof -
  let ?p = "\<lparr>start_index = Some 0, end_index = Some 10, text = Some ''hi'', bold = None,
             italic = None, underline = None, font_size = None, font_family = None\<rparr>"
  have b: "edit_text accept_all ''doc'' ?p = Built [InsertText 1 ''hi'', DeleteRange 3 12]"
    by (simp add: edit_text_def accept_all_def any_formatting_def truthy_int_def truthy_str_def
        text_requests_def builders)
  have "(0::int) < 10" by simp
  from index0_replace_batch[OF b _ _ this, of "''hi''"] b show ?thesis by simp
qed

text \<open>
  C1 as stated fails: with a formatting parameter the batch of a replace at 0 has a third
  operation.
\<close>

theorem index0_replace_with_formatting_counterexample:
  "edit_text accept_all ''doc''
     \<lparr>start_index = Some 0, end_index = Some 10, text = Some ''hi'', bold = Some True,
      italic = None, underline = None, font_size = None, font_family = None\<rparr>
   = Built [InsertText 1 ''hi'', DeleteRange 3 12, FormatText 1 2 (Some True) None None None None]
   \<and> edit_text accept_all ''doc''
     \<lparr>start_index = Some 0, end_index = Some 10, text = Some ''hi'', bold = Some True,
      italic = None, underline = None, font_size = None, font_family = None\<rparr>
   \<noteq> Built [InsertText 1 ''hi'', DeleteRange 3 12]"
  by (simp add: edit_text_def accept_all_def any_formatting_def truthy_int_def truthy_str_def
      text_requests_def format_range_def builders)

text \<open>
  C7, as amended. For every \<open>edit_text\<close> call with text \<open>t\<close> and a non-degenerate range
  with \<open>start_index > 0\<close> that builds a batch, the batch is the deletion of
  \<open>[start_index, end_index)\<close>, then the insertion of \<open>t\<close> at \<open>start_index\<close>, in this order
  and with no index-shift correction, followed by one format operation when formatting
  parameters are supplied and by nothing otherwise.
\<close>

theorem ordinary_replace_batch:
  assumes "edit_text v d p = Built reqs"
    and "start_index p = Some s" and "end_index p = Some e" and "0 < s" and "s < e"
    and "text p = Some t"
  shows "reqs = [DeleteRange s e, InsertText s t] @
           (if any_formatting p
            then [FormatText s (if t = [] then s + 1 else s + int (length t))
                    (bold p) (italic p) (underline p) (font_size p) (font_family p)]
            else [])"
  using assms
  by (auto elim!: edit_text_Built simp: text_requests_def format_range_def builders Let_def)

theorem ordinary_replace_batch_witness:
  "edit_text accept_all ''doc''
     \<lparr>start_index = Some 5, end_index = Some 10, text = Some ''hi'', bold = None, italic = None,
      underline = None, font_size = None, font_family = None\<rparr>
   = Built [DeleteRange 5 10, InsertText 5 ''hi'']"
proof -
  let ?p = "\<lparr>start_index = Some 5, end_index = Some 10, text = Some ''hi'', bold = None,
             italic = None, underline = None, font_size = None, font_family = None\<rparr>"
  have b: "edit_text accept_all ''doc'' ?p = Built [DeleteRange 5 10, InsertText 5 ''hi'']"
    by (simp add: edit_text_def accept_all_def any_formatting_def truthy_int_def truthy_str_def
        text_requests_def builders)
  have "(0::int) < 5" "(5::int) < 10" by simp_all
  from ordinary_replace_batch[OF b _ _ this, of "''hi''"] b show ?thesis by simp
qed

text \<open>
  C7 as stated fails: with a formatting parameter the batch of an ordinary replace has a
  third operation.
\<close>

theorem ordinary_replace_with_formatting_counterexample:
  "edit_text accept_all ''doc''
     \<lparr>start_index = Some 5, end_index = Some 10, text = Some ''hi'', bold = Some True,
      italic = None, underline = None, font_size = None, font_family = None\<rparr>
   = Built [DeleteRange 5 10, InsertText 5 ''hi'', FormatText 5 7 (Some True) None None None None]
   \<and> edit_text accept_all ''doc''
     \<lparr>start_index = Some 5, end_index = Some 10, text = Some ''hi'', bold = Some True,
      italic = None, underline = None, font_size = None, font_family = None\<rparr>
   \<noteq> Built [DeleteRange 5 10, InsertText 5 ''hi'']"
  by (simp add: edit_text_def accept_all_def any_formatting_def truthy_int_def truthy_str_def
      text_requests_def format_range_def builders)

text \<open>
  The text requests put the new text at \<open>[a, a + len t)\<close>, with \<open>a\<close> the start index, or 1
  for a start at 0.
\<close>

lemma new_text_range_text_requests:
  "new_text_range (text_requests s e_opt (Some t)) =
     Some ((if s = 0 then 1 else s), (if s = 0 then 1 else s) + int (length t))"
  by (simp add: new_text_range_def text_requests_def builders List.map_filter_simps
      split: option.splits)

text \<open>
  C4. An \<open>edit_text\<close> call that writes text and applies formatting is to format the actual
  final range of the new text. For a replace of a range starting at 0 the code does not:
  the text \<open>hello\<close> replacing \<open>[0, 10)\<close> is inserted at 1 and lies at \<open>[1, 6)\<close>, while the
  format operation of the batch covers \<open>[1, 5)\<close>, computed as
  \<open>[start_index, start_index + len text)\<close> with only its start moved to 1.
\<close>

theorem format_range_short_at_index0:
  "edit_text accept_all ''doc''
     \<lparr>start_index = Some 0, end_index = Some 10, text = Some ''hello'', bold = Some True,
      italic = None, underline = None, font_size = None, font_family = None\<rparr>
   = Built [InsertText 1 ''hello'', DeleteRange 6 15,
            FormatText 1 5 (Some True) None None None None]
   \<and> new_text_range [InsertText 1 ''hello'', DeleteRange 6 15,
                      FormatText 1 5 (Some True) None None None None] = Some (1, 6)"
  by (simp add: edit_text_def accept_all_def any_formatting_def truthy_int_def truthy_str_def
      text_requests_def format_range_def builders new_text_range_def List.map_filter_simps)

text \<open>
  Where the format range is the range of the new text: for a text that is not empty, on
  every path but the replace at 0. There the end is one unit short (and for a text of at
  most one unit the range is \<open>[1, 2)\<close>); for the empty text the range is widened to one unit
  past the start.
\<close>

lemma format_range_is_new_text_range:
  assumes "t \<noteq> []" and "\<not> (s = 0 \<and> s < e)"
  shows "Some (format_range s e (Some t)) = new_text_range (text_requests s (Some e) (Some t))"
  using assms
  by (auto simp: new_text_range_text_requests format_range_def Let_def)

lemma format_range_replace_at_0:
  assumes "0 < e"
  shows "format_range 0 e (Some t) = (1, if int (length t) \<le> 1 then 2 else int (length t))"
    and "new_text_range (text_requests 0 (Some e) (Some t)) = Some (1, 1 + int (length t))"
  using assms by (auto simp: new_text_range_text_requests format_range_def Let_def)

lemma format_range_empty_text:
  "format_range s e (Some []) = ((if s = 0 then 1 else s), (if s = 0 then 1 else s) + 1)"
  by (simp add: format_range_def Let_def)

section \<open>The workaround and the direct replace on a document\<close>

lemma replace_direct_content:
  assumes "0 < s" and "s < e"
  shows "apply_batch [DeleteRange s e, InsertText s t] d =
           (if e < int (length d) then Some (take (nat s) d @ t @ drop (nat e) d) else None)"
  using assms by (auto simp: apply_op_def min_def)

lemma replace_workaround_content:
  assumes "0 < s" and "s < e"
  shows "apply_batch (index0_workaround s e t) d =
           (if e \<le> int (length d) then Some (take (nat s) d @ t @ drop (nat e) d) else None)"
proof (cases "e \<le> int (length d)")
  case False
  with assms show ?thesis by (auto simp: index0_workaround_def apply_op_def)
next
  case True
  let ?d1 = "take (nat s) d @ t @ drop (nat s) d"
  from assms True have len: "length (take (nat s) d) = nat s" by simp
  have n1: "nat (s + int (length t)) = nat s + length t" using assms by simp
  have n2: "nat (e + int (length t)) = nat s + length t + (nat e - nat s)" using assms by simp
  have tk: "take (nat s + length t) ?d1 = take (nat s) d @ t" using len by simp
  have dr: "drop (nat s + length t + (nat e - nat s)) ?d1 = drop (nat e) d"
    using len assms by simp
  from assms True have ok1: "apply_op (InsertText s t) d = Some ?d1" by (simp add: apply_op_def)
  from assms True have ok2: "apply_op (DeleteRange (s + int (length t)) (e + int (length t))) ?d1
      = Some (take (nat (s + int (length t))) ?d1 @ drop (nat (e + int (length t))) ?d1)"
    by (simp add: apply_op_def)
  show ?thesis using True ok1 ok2 tk dr n1 n2 by (simp add: index0_workaround_def)
qed




lemma replace_to_document_end:
  assumes "0 < s" and "s < e" and "e = int (length d)"
  shows "apply_batch (index0_workaround s e t) d = Some (take (nat s) d @ t)"
    and "apply_batch (text_requests s (Some e) (Some t)) d = None"
proof -
  from assms have tr: "text_requests s (Some e) (Some t) = [DeleteRange s e, InsertText s t]"
    by (simp add: text_requests_def builders)
  from assms show "apply_batch (index0_workaround s e t) d = Some (take (nat s) d @ t)"
    by (simp add: replace_workaround_content)
  have "apply_batch [DeleteRange s e, InsertText s t] d =
          (if e < int (length d) then Some (take (nat s) d @ t @ drop (nat e) d) else None)"
    using assms(1,2) by (rule replace_direct_content)
  also have "\<dots> = None" using assms(3) by simp
  finally show "apply_batch (text_requests s (Some e) (Some t)) d = None"
    unfolding tr .
qed

text \<open>
  The branch of \<open>edit_text\<close> for a range starting at 0 is the workaround at start 1, so a
  replace of \<open>[0, e)\<close> that ends before the end of the document acts on it as the ordinary
  replace of \<open>[1, e)\<close>; the new text then lies at \<open>[1, 1 + len t)\<close>.
\<close>

lemma index0_branch: "0 < e \<Longrightarrow> text_requests 0 (Some e) (Some t) = index0_workaround 1 e t"
  by (simp add: text_requests_def index0_workaround_def builders)

lemma index0_as_replace_from_1:
  assumes "1 < e" and "e \<noteq> int (length d)"
  shows "apply_batch (text_requests 0 (Some e) (Some t)) d =
         apply_batch (text_requests 1 (Some e) (Some t)) d"
proof -
  from assms have d: "text_requests 1 (Some e) (Some t) = [DeleteRange 1 e, InsertText 1 t]"
    by (simp add: text_requests_def builders)
  from assms have w: "text_requests 0 (Some e) (Some t) = index0_workaround 1 e t"
    by (simp add: index0_branch)
  have one: "(0::int) < 1" by simp
  have a: "apply_batch (index0_workaround 1 e t) d =
             (if e \<le> int (length d) then Some (take (nat 1) d @ t @ drop (nat e) d) else None)"
    using one assms(1) by (rule replace_workaround_content)
  have b: "apply_batch [DeleteRange 1 e, InsertText 1 t] d =
             (if e < int (length d) then Some (take (nat 1) d @ t @ drop (nat e) d) else None)"
    using one assms(1) by (rule replace_direct_content)
  from assms have "e < int (length d) \<longleftrightarrow> e \<le> int (length d)" by auto
  then show ?thesis
    unfolding d w a b by simp
qed

lemma index0_replace_places_text:
  assumes "1 < e" and "e \<le> int (length d)"
  shows "\<exists>d'. apply_batch (text_requests 0 (Some e) (Some t)) d = Some d' \<and>
              take (length t) (drop 1 d') = t"
proof -
  from assms have w: "text_requests 0 (Some e) (Some t) = index0_workaround 1 e t"
    by (simp add: index0_branch)
  from assms have "length d \<ge> 1" by simp
  then have "length (take 1 d) = 1" by simp
  with assms show ?thesis
    unfolding w by (simp add: replace_workaround_content)
qed

section \<open>\<open>insert_doc_elements\<close>\<close>

text \<open>
  C3, as amended. For every list insertion that names a list type, the batch is the
  insertion of the item text and a newline at the adjusted index \<open>j\<close> (1 for a call at 0),
  then the bullet request over \<open>[j, j + len item + 1)\<close>, where the item text is the text of
  the call, or \<open>List item\<close> when the call gives no text or the empty text; the styled range
  has length \<open>len item + 1\<close> and covers the trailing newline.
\<close>

theorem list_insertion_batch:
  assumes "lt \<noteq> []"
  shows "insert_doc_elements m dr v doc ''text_elements'' i (Some ''list'') r c (Some lt) txt
            src w h td bh =
         (let j = (if i = 0 then 1 else i);
              item = (case txt of None \<Rightarrow> ''List item''
                      | Some t \<Rightarrow> if t = [] then ''List item'' else t)
          in Built [InsertText j (item @ [CHR 0x0A]),
                    CreateBullets j (j + int (length item) + 1) lt])"
  using assms
  by (simp add: insert_doc_elements_def insert_text_elements_def truthy_str_def builders Let_def)

theorem list_insertion_batch_witness:
  "''UNORDERED'' \<noteq> [] \<and>
   insert_doc_elements manager_end_50 no_drive accept_all ''doc'' ''text_elements'' 20
      (Some ''list'') None None (Some ''UNORDERED'') (Some ''Buy milk'') None None None None True
   = Built [InsertText 20 (''Buy milk'' @ [CHR 0x0A]), CreateBullets 20 29 ''UNORDERED'']"
  using list_insertion_batch[of "''UNORDERED''" manager_end_50 no_drive accept_all "''doc''" 20
      None None "Some ''Buy milk''" None None None None True]
  by simp

text \<open>
  C3 as stated fails: for the empty text the inserted text is \<open>List item\<close> and the styled
  range has length 10, not 1.
\<close>

theorem list_insertion_default_text_counterexample:
  "insert_doc_elements manager_end_50 no_drive accept_all ''doc'' ''text_elements'' 20
      (Some ''list'') None None (Some ''UNORDERED'') (Some []) None None None None True
   = Built [InsertText 20 (''List item'' @ [CHR 0x0A]), CreateBullets 20 30 ''UNORDERED'']
   \<and> insert_doc_elements manager_end_50 no_drive accept_all ''doc'' ''text_elements'' 20
      (Some ''list'') None None (Some ''UNORDERED'') (Some []) None None None None True
   \<noteq> Built [InsertText 20 ([] @ [CHR 0x0A]),
             CreateBullets 20 (20 + int (length ([] :: string)) + 1) ''UNORDERED'']"
  by (simp add: insert_doc_elements_def insert_text_elements_def truthy_str_def builders Let_def)

text \<open>
  C2, as amended. For every table insertion that passes validation and whose first
  attempt, at the adjusted index \<open>j\<close>, returns a failure with the boundary message, exactly
  one retry is made, at \<open>j - 1\<close>, and the call ends with the report of that retry: no third
  attempt is made, and when the retry fails too the call returns the error string made of
  the message of the retry.
\<close>

theorem table_boundary_retry:
  assumes "td = Some data" and "data \<noteq> []"
    and "fst (validate_document_id v doc)" and "fst (validate_table_data v data)"
    and "j = (if i = 0 then 1 else i)"
    and "fst (validate_index v j ''Index'')"
    and "m doc data j bh = Attempt False msg r c"
    and "str_contains ''must be less than the end index'' msg"
  shows "insert_doc_elements m dr v doc ''table'' i et rows cols lt txt src w h td bh =
           table_report [j, j - 1] j (m doc data (j - 1) bh)
         \<and> (\<forall>msg2 r2 c2. m doc data (j - 1) bh = Attempt False msg2 r2 c2 \<longrightarrow>
              insert_doc_elements m dr v doc ''table'' i et rows cols lt txt src w h td bh =
                TableFailed [j, j - 1] (''ERROR: '' @ msg2))"
  using assms
  by (simp add: insert_doc_elements_def insert_table_def table_report_def Let_def)

text \<open>The scenario of the specification: end index 50, requested index 50, retried at 49.\<close>

theorem table_boundary_retry_witness:
  "insert_doc_elements manager_end_50 no_drive accept_all ''doc'' ''table'' 50 None None None
      None None None None None (Some [[''a'']]) True
   = TableDone [50, 49] ''Table created'' 1 1 50
   \<and> insert_doc_elements manager_end_40 no_drive accept_all ''doc'' ''table'' 50 None None None
      None None None None None (Some [[''a'']]) True
   = TableFailed [50, 49]
       ''ERROR: Index 49 must be less than the end index of the referenced segment, 40.''"
  using table_boundary_retry[of "Some [[''a'']]" "[[''a'']]" accept_all "''doc''" 50 50
      manager_end_50 True
      "''Index 50 must be less than the end index of the referenced segment, 50.''" None None
      no_drive None None None None None None None None]
    table_boundary_retry[of "Some [[''a'']]" "[[''a'']]" accept_all "''doc''" 50 50
      manager_end_40 True
      "''Index 50 must be less than the end index of the referenced segment, 40.''" None None
      no_drive None None None None None None None None]
  by (simp add: manager_end_50_def manager_end_40_def accept_all_def table_report_def)

text \<open>
  C2 as stated fails: when the retry fails as well, the error returned carries the message
  of the retry, not the message of the first attempt.
\<close>

theorem table_retry_message_counterexample:
  "manager_end_40 ''doc'' [[''a'']] 50 True
     = Attempt False ''Index 50 must be less than the end index of the referenced segment, 40.''
         None None
   \<and> str_contains ''must be less than the end index''
        ''Index 50 must be less than the end index of the referenced segment, 40.''
   \<and> insert_doc_elements manager_end_40 no_drive accept_all ''doc'' ''table'' 50 None None None
        None None None None None (Some [[''a'']]) True
     = TableFailed [50, 49]
         (''ERROR: '' @ ''Index 49 must be less than the end index of the referenced segment, 40.'')
   \<and> insert_doc_elements manager_end_40 no_drive accept_all ''doc'' ''table'' 50 None None None
        None None None None None (Some [[''a'']]) True
     \<noteq> TableFailed [50, 49]
         (''ERROR: '' @ ''Index 50 must be less than the end index of the referenced segment, 40.'')"
  by (simp add: insert_doc_elements_def insert_table_def table_report_def Let_def
      manager_end_40_def accept_all_def)

text \<open>
  C8. A pure insertion requested at position 0 is to target index 1. The insert branch of
  \<open>edit_text\<close> does, and so do the batches of \<open>insert_doc_elements\<close> and the first attempt of
  its table operation; the boundary retry of the table operation does not: for a call at
  index 0 it is made at index 0.
\<close>

theorem table_retry_targets_index_0:
  "insert_doc_elements manager_population_fails no_drive accept_all ''doc'' ''table'' 0 None None
      None None None None None None (Some [[''a'']]) True
   = TableFailed [1, 0]
      ''ERROR: Failed to populate cell: Index 12 must be less than the end index of the referenced segment, 12.''"
  by (simp add: insert_doc_elements_def insert_table_def table_report_def Let_def
      manager_population_fails_def accept_all_def)

text \<open>What holds of the redirection from 0 to 1.\<close>

lemma edit_text_insert_at_0:
  assumes "edit_text v d p = Built reqs"
    and "start_index p = Some 0" and "text p = Some t"
    and "end_index p = None \<or> (\<exists>e. end_index p = Some e \<and> e \<le> 0)"
  shows "hd reqs = InsertText 1 t" and "\<forall>r \<in> set reqs. target r = Some 1"
  using assms
  by (auto elim!: edit_text_Built simp: text_requests_def format_range_def builders Let_def)

lemma insert_index0_as_1:
  "insert_doc_elements m dr v doc operation 0 et rows cols lt txt src w h td bh =
   insert_doc_elements m dr v doc operation 1 et rows cols lt txt src w h td bh"
  by (simp add: insert_doc_elements_def)

lemma insert_built_targets:
  assumes "insert_doc_elements m dr v doc operation i et rows cols lt txt src w h td bh = Built reqs"
    and "r \<in> set reqs"
  shows "target r = Some (if i = 0 then 1 else i)"
  using assms
  by (auto simp: insert_doc_elements_def insert_text_elements_def insert_image_def
      insert_table_def table_report_def builders Let_def
      split: if_splits option.splits drive_file.splits attempt.splits prod.splits)

lemma insert_table_first_attempt:
  assumes "insert_doc_elements m dr v doc ''table'' 0 et rows cols lt txt src w h td bh = res"
  shows "(case res of
            TableDone tried msg r c i \<Rightarrow> hd tried = 1
          | TableFailed tried msg \<Rightarrow> hd tried = 1
          | TableRaised tried msg \<Rightarrow> hd tried = 1
          | _ \<Rightarrow> True)"
  using assms
  by (auto simp: insert_doc_elements_def insert_table_def table_report_def Let_def
      split: if_splits option.splits attempt.splits)

end
